theory Spec2Isabelle
  imports Complex_Main
begin

section \<open>Three-dimensional vectors\<close>

text \<open>
  The sources import \<open>Vec3\<close> from \<open>../math/Vec3\<close>, which is not among them. Numbers
  are JavaScript doubles in the program; here they are real numbers, so rounding, NaN and the
  infinities are outside the model.
\<close>

record Vec3 =
  x :: real
  y :: real
  z :: real

text \<open>
  Modelled from the spec: the class \<open>Vec3\<close> is missing. The spec uses its operations with
  their usual geometric meaning (difference and sum of vectors, scaling by a number, cross and
  dot product, Euclidean length and distance); \<open>new Vec3()\<close> is the zero vector (the spec:
  a local anchor defaults to the body's own center). A method that stores its result in a target
  vector is modelled by the value it stores; the caller's model does the store.
\<close>

definition Vec3_new :: "Vec3" where
  "Vec3_new = \<lparr>x = 0, y = 0, z = 0\<rparr>"

definition Vec3_copy :: "Vec3 \<Rightarrow> Vec3" where
  "Vec3_copy v = \<lparr>x = x v, y = y v, z = z v\<rparr>"

definition Vec3_vsub :: "Vec3 \<Rightarrow> Vec3 \<Rightarrow> Vec3" where
  "Vec3_vsub u v = \<lparr>x = x u - x v, y = y u - y v, z = z u - z v\<rparr>"

definition Vec3_vadd :: "Vec3 \<Rightarrow> Vec3 \<Rightarrow> Vec3" where
  "Vec3_vadd u v = \<lparr>x = x u + x v, y = y u + y v, z = z u + z v\<rparr>"

definition Vec3_mult :: "Vec3 \<Rightarrow> real \<Rightarrow> Vec3" where
  "Vec3_mult u s = \<lparr>x = s * x u, y = s * y u, z = s * z u\<rparr>"

definition Vec3_cross :: "Vec3 \<Rightarrow> Vec3 \<Rightarrow> Vec3" where
  "Vec3_cross u v =
     \<lparr>x = y u * z v - z u * y v, y = z u * x v - x u * z v, z = x u * y v - y u * x v\<rparr>"

definition Vec3_dot :: "Vec3 \<Rightarrow> Vec3 \<Rightarrow> real" where
  "Vec3_dot u v = x u * x v + y u * y v + z u * z v"

definition Vec3_norm :: "Vec3 \<Rightarrow> real" where
  "Vec3_norm v = sqrt (x v * x v + y v * y v + z v * z v)"

definition Vec3_distanceTo :: "Vec3 \<Rightarrow> Vec3 \<Rightarrow> real" where
  "Vec3_distanceTo u p =
     sqrt ((x p - x u) * (x p - x u) + (y p - y u) * (y p - y u) + (z p - z u) * (z p - z u))"

text \<open>
  Modelled from the spec: \<open>Vec3.normalize\<close> is missing. The spec fixes its result for a
  vector of positive length (the vector scaled to unit length) and calls the zero-length case
  undefined, not handled by the operation. The vector that the operation leaves behind in that
  case is the parameter \<open>degenerate\<close>, about which nothing is assumed.
\<close>

definition Vec3_normalize :: "Vec3 \<Rightarrow> Vec3 \<Rightarrow> Vec3" where
  "Vec3_normalize degenerate v =
     (let n = Vec3_norm v
      in if n > 0 then \<lparr>x = x v / n, y = y v / n, z = z v / n\<rparr> else degenerate)"


section \<open>Bodies\<close>

text \<open>
  Modelled from the spec: the class \<open>Body\<close> is missing. The spec lists what a rigid body
  exposes: position, orientation, linear and angular velocity, and the force and torque
  accumulators. Objects are shared by reference in the program, so the bodies live in a store
  and a constraint or spring holds their addresses; the two ends may be the same body. The
  vectors are values of their owner: no two fields share one \<open>Vec3\<close> object.
\<close>

type_synonym ref = nat

record Quaternion =
  qx :: real
  qy :: real
  qz :: real
  qw :: real

record Body =
  position :: Vec3
  orientation :: Quaternion
  velocity :: Vec3
  angularVelocity :: Vec3
  force :: Vec3
  torque :: Vec3


section \<open>Equations and constraints\<close>

text \<open>
  Modelled from the spec: the classes \<open>Equation\<close>, \<open>ContactEquation\<close> and
  \<open>Constraint\<close> are missing. An equation has its two bodies and the force bounds; a contact
  equation adds the direction \<open>ni\<close> and the anchor offsets \<open>ri\<close>, \<open>rj\<close>; a
  constraint has its two bodies and the ordered sequence of its equations, which is empty when
  the base constructor returns. What a new contact equation holds in its other fields is not
  described by the spec: it is the parameter \<open>blank\<close>.
\<close>

record Equation =
  bi :: ref
  bj :: ref
  minForce :: real
  maxForce :: real

record ContactEquation = Equation +
  ni :: Vec3
  ri :: Vec3
  rj :: Vec3

record Constraint =
  bodyA :: ref
  bodyB :: ref
  equations :: "ref list"

definition ContactEquation_new :: "ContactEquation \<Rightarrow> ref \<Rightarrow> ref \<Rightarrow> ContactEquation" where
  "ContactEquation_new blank a b = blank\<lparr>bi := a, bj := b\<rparr>"

definition Constraint_new :: "ref \<Rightarrow> ref \<Rightarrow> Constraint" where
  "Constraint_new a b = \<lparr>bodyA = a, bodyB = b, equations = []\<rparr>"

text \<open>
  The store of a simulation: the bodies, and for the constraints also the contact equations and
  the address that the next new equation gets.
\<close>

record Store =
  bodies :: "ref \<Rightarrow> Body"

record Heap = Store +
  eqs :: "ref \<Rightarrow> ContactEquation"
  eq_next :: ref


section \<open>DistanceConstraint\<close>

record DistanceConstraint = Constraint +
  distance :: real
  distanceEquation :: ref

text \<open>
  The constructor. An argument left out is \<open>None\<close>: \<open>maxForce\<close> then takes its default
  \<open>1e6\<close>, and \<open>distance\<close> the current distance of the two bodies. The new equation is
  allocated in the store; the constraint holds its address twice, as \<open>distanceEquation\<close> and
  as the one element pushed on \<open>equations\<close>.
\<close>

definition DistanceConstraint_new ::
  "ContactEquation \<Rightarrow> ref \<Rightarrow> ref \<Rightarrow> real option \<Rightarrow> real option \<Rightarrow> Heap
     \<Rightarrow> DistanceConstraint \<times> Heap" where
  "DistanceConstraint_new blank a b distance_arg maxForce_arg h =
     (let maxForce' = (case maxForce_arg of None \<Rightarrow> 1000000 | Some m \<Rightarrow> m);
          super = Constraint_new a b;
          distance' = (case distance_arg of
                         None \<Rightarrow> Vec3_distanceTo (position (bodies h a)) (position (bodies h b))
                       | Some d \<Rightarrow> d);
          eq = eq_next h;
          h1 = h\<lparr>eqs := (eqs h)(eq := ContactEquation_new blank a b), eq_next := Suc eq\<rparr>;
          this = \<lparr>bodyA = bodyA super, bodyB = bodyB super, equations = equations super @ [eq],
                  distance = distance', distanceEquation = eq\<rparr>;
          h2 = h1\<lparr>eqs := (eqs h1)(eq := (eqs h1 eq)\<lparr>minForce := - maxForce'\<rparr>)\<rparr>;
          h3 = h2\<lparr>eqs := (eqs h2)(eq := (eqs h2 eq)\<lparr>maxForce := maxForce'\<rparr>)\<rparr>
      in (this, h3))"

text \<open>
  \<open>update\<close>: \<open>normal\<close> is the equation's own \<open>ni\<close>, so each of the four calls
  writes one vector of the equation in the store.
\<close>

definition DistanceConstraint_update :: "Vec3 \<Rightarrow> DistanceConstraint \<Rightarrow> Heap \<Rightarrow> Heap" where
  "DistanceConstraint_update degenerate this h =
     (let a = bodyA this;
          b = bodyB this;
          eq = distanceEquation this;
          halfDist = distance this * 0.5;
          h1 = h\<lparr>eqs := (eqs h)(eq := (eqs h eq)
                  \<lparr>ni := Vec3_vsub (position (bodies h b)) (position (bodies h a))\<rparr>)\<rparr>;
          h2 = h1\<lparr>eqs := (eqs h1)(eq := (eqs h1 eq)
                  \<lparr>ni := Vec3_normalize degenerate (ni (eqs h1 eq))\<rparr>)\<rparr>;
          h3 = h2\<lparr>eqs := (eqs h2)(eq := (eqs h2 eq)
                  \<lparr>ri := Vec3_mult (ni (eqs h2 eq)) halfDist\<rparr>)\<rparr>;
          h4 = h3\<lparr>eqs := (eqs h3)(eq := (eqs h3 eq)
                  \<lparr>rj := Vec3_mult (ni (eqs h3 eq)) (- halfDist)\<rparr>)\<rparr>
      in h4)"


section \<open>ContactMaterial\<close>

text \<open>
  A \<open>Material\<close> is an object of a class that is not among the sources; a contact material
  holds two of them by reference.
\<close>

type_synonym Material = ref

record ContactMaterialOptions =
  friction :: "real option"
  restitution :: "real option"
  contactEquationStiffness :: "real option"
  contactEquationRelaxation :: "real option"
  frictionEquationStiffness :: "real option"
  frictionEquationRelaxation :: "real option"

text \<open>
  Modelled from the spec: \<open>Utils.defaults\<close> is missing. The spec calls what the constructor
  does with it default-filling: a field for which no option is supplied takes the default, a
  supplied one is kept.
\<close>

definition Utils_defaults ::
  "ContactMaterialOptions \<Rightarrow> ContactMaterialOptions \<Rightarrow> ContactMaterialOptions" where
  "Utils_defaults options defaults =
     \<lparr>friction = (case friction options of None \<Rightarrow> friction defaults | Some v \<Rightarrow> Some v),
      restitution =
        (case restitution options of None \<Rightarrow> restitution defaults | Some v \<Rightarrow> Some v),
      contactEquationStiffness =
        (case contactEquationStiffness options of
           None \<Rightarrow> contactEquationStiffness defaults | Some v \<Rightarrow> Some v),
      contactEquationRelaxation =
        (case contactEquationRelaxation options of
           None \<Rightarrow> contactEquationRelaxation defaults | Some v \<Rightarrow> Some v),
      frictionEquationStiffness =
        (case frictionEquationStiffness options of
           None \<Rightarrow> frictionEquationStiffness defaults | Some v \<Rightarrow> Some v),
      frictionEquationRelaxation =
        (case frictionEquationRelaxation options of
           None \<Rightarrow> frictionEquationRelaxation defaults | Some v \<Rightarrow> Some v)\<rparr>"

text \<open>
  The static \<open>idCounter\<close> is the state of the class; it is \<open>0\<close> when the module is
  loaded. It is a natural number here: a double stops counting at \<open>2^53\<close>, which is outside
  the model.
\<close>

record ContactMaterial_static =
  idCounter :: nat

definition ContactMaterial_static_init :: ContactMaterial_static where
  "ContactMaterial_static_init = \<lparr>idCounter = 0\<rparr>"

text \<open>
  The fields of a contact material. The non-null assertion \<open>!\<close> of the constructor has no
  effect when the program runs, so a field holds what the filled options hold: \<open>Some v\<close>, or
  \<open>None\<close> were the option still absent. The field \<open>id\<close> is \<open>id'\<close> here.
\<close>

record ContactMaterial =
  id' :: nat
  materials :: "Material \<times> Material"
  friction :: "real option"
  restitution :: "real option"
  contactEquationStiffness :: "real option"
  contactEquationRelaxation :: "real option"
  frictionEquationStiffness :: "real option"
  frictionEquationRelaxation :: "real option"

definition ContactMaterial_new ::
  "Material \<Rightarrow> Material \<Rightarrow> ContactMaterialOptions \<Rightarrow> ContactMaterial_static
     \<Rightarrow> ContactMaterial \<times> ContactMaterial_static" where
  "ContactMaterial_new m1 m2 options_arg st =
     (let options = Utils_defaults options_arg
            \<lparr>ContactMaterialOptions.friction = Some 0.3,
             ContactMaterialOptions.restitution = Some 0.3,
             ContactMaterialOptions.contactEquationStiffness = Some 10000000,
             ContactMaterialOptions.contactEquationRelaxation = Some 3,
             ContactMaterialOptions.frictionEquationStiffness = Some 10000000,
             ContactMaterialOptions.frictionEquationRelaxation = Some 3\<rparr>;
          this_id = idCounter st;
          st1 = st\<lparr>idCounter := idCounter st + 1\<rparr>;
          this = \<lparr>id' = this_id,
                  materials = (m1, m2),
                  friction = ContactMaterialOptions.friction options,
                  restitution = ContactMaterialOptions.restitution options,
                  contactEquationStiffness = ContactMaterialOptions.contactEquationStiffness options,
                  contactEquationRelaxation = ContactMaterialOptions.contactEquationRelaxation options,
                  frictionEquationStiffness = ContactMaterialOptions.frictionEquationStiffness options,
                  frictionEquationRelaxation =
                    ContactMaterialOptions.frictionEquationRelaxation options\<rparr>
      in (this, st1))"

text \<open>
  A run of constructions in one process: each takes the class state that the one before left.
\<close>

fun ContactMaterial_new_all ::
  "(Material \<times> Material \<times> ContactMaterialOptions) list \<Rightarrow> ContactMaterial_static
     \<Rightarrow> ContactMaterial list \<times> ContactMaterial_static" where
  "ContactMaterial_new_all [] st = ([], st)"
| "ContactMaterial_new_all ((m1, m2, options) # rest) st =
     (let (c, st1) = ContactMaterial_new m1 m2 options st;
          (cs, st2) = ContactMaterial_new_all rest st1
      in (c # cs, st2))"


section \<open>Spring\<close>

text \<open>
  Modelled from the spec: \<open>Body.pointToLocalFrame\<close> and \<open>Body.pointToWorldFrame\<close> are
  missing. The spec describes them as the body's world-to-local and local-to-world transforms
  of a point and says no more, so each is a parameter: a function of the body's position and
  orientation and of the point.
\<close>

type_synonym transform = "Vec3 \<Rightarrow> Quaternion \<Rightarrow> Vec3 \<Rightarrow> Vec3"

definition Body_pointToLocalFrame :: "transform \<Rightarrow> Body \<Rightarrow> Vec3 \<Rightarrow> Vec3" where
  "Body_pointToLocalFrame toLocal body worldPoint =
     toLocal (position body) (orientation body) worldPoint"

definition Body_pointToWorldFrame :: "transform \<Rightarrow> Body \<Rightarrow> Vec3 \<Rightarrow> Vec3" where
  "Body_pointToWorldFrame toWorld body localPoint =
     toWorld (position body) (orientation body) localPoint"

record SpringOptions =
  restLength :: "real option"
  stiffness :: "real option"
  damping :: "real option"
  localAnchorA :: "Vec3 option"
  localAnchorB :: "Vec3 option"
  worldAnchorA :: "Vec3 option"
  worldAnchorB :: "Vec3 option"

definition SpringOptions_empty :: SpringOptions where
  "SpringOptions_empty =
     \<lparr>restLength = None, stiffness = None, damping = None, localAnchorA = None,
      localAnchorB = None, worldAnchorA = None, worldAnchorB = None\<rparr>"

record Spring =
  restLength :: real
  stiffness :: real
  damping :: real
  bodyA :: ref
  bodyB :: ref
  localAnchorA :: Vec3
  localAnchorB :: Vec3

text \<open>
  \<open>v || d\<close> on an optional number: \<open>undefined\<close> and \<open>0\<close> are falsy and give the
  right operand.
\<close>

definition number_or :: "real option \<Rightarrow> real \<Rightarrow> real" where
  "number_or v d = (case v of None \<Rightarrow> d | Some n \<Rightarrow> if n = 0 then d else n)"

definition Spring_setWorldAnchorA :: "transform \<Rightarrow> (ref \<Rightarrow> Body) \<Rightarrow> Vec3 \<Rightarrow> Spring \<Rightarrow> Spring" where
  "Spring_setWorldAnchorA toLocal bs worldAnchor this =
     this\<lparr>localAnchorA := Body_pointToLocalFrame toLocal (bs (bodyA this)) worldAnchor\<rparr>"

definition Spring_setWorldAnchorB :: "transform \<Rightarrow> (ref \<Rightarrow> Body) \<Rightarrow> Vec3 \<Rightarrow> Spring \<Rightarrow> Spring" where
  "Spring_setWorldAnchorB toLocal bs worldAnchor this =
     this\<lparr>localAnchorB := Body_pointToLocalFrame toLocal (bs (bodyB this)) worldAnchor\<rparr>"

definition Spring_getWorldAnchorA :: "transform \<Rightarrow> (ref \<Rightarrow> Body) \<Rightarrow> Spring \<Rightarrow> Vec3" where
  "Spring_getWorldAnchorA toWorld bs this =
     Body_pointToWorldFrame toWorld (bs (bodyA this)) (localAnchorA this)"

definition Spring_getWorldAnchorB :: "transform \<Rightarrow> (ref \<Rightarrow> Body) \<Rightarrow> Spring \<Rightarrow> Vec3" where
  "Spring_getWorldAnchorB toWorld bs this =
     Body_pointToWorldFrame toWorld (bs (bodyB this)) (localAnchorB this)"

text \<open>
  The constructor. The argument \<open>options\<close> left out is \<open>None\<close> and stands for the empty
  object. The constructor changes no body.
\<close>

definition Spring_new ::
  "transform \<Rightarrow> (ref \<Rightarrow> Body) \<Rightarrow> ref \<Rightarrow> ref \<Rightarrow> SpringOptions option \<Rightarrow> Spring" where
  "Spring_new toLocal bs a b options_arg =
     (let options = (case options_arg of None \<Rightarrow> SpringOptions_empty | Some opts \<Rightarrow> opts);
          this0 = \<lparr>restLength = (case SpringOptions.restLength options of
                                    Some v \<Rightarrow> v | None \<Rightarrow> 1),
                   stiffness = number_or (SpringOptions.stiffness options) 100,
                   damping = number_or (SpringOptions.damping options) 1,
                   bodyA = a,
                   bodyB = b,
                   localAnchorA = Vec3_new,
                   localAnchorB = Vec3_new\<rparr>;
          this1 = (case SpringOptions.localAnchorA options of
                     Some v \<Rightarrow> this0\<lparr>localAnchorA := Vec3_copy v\<rparr> | None \<Rightarrow> this0);
          this2 = (case SpringOptions.localAnchorB options of
                     Some v \<Rightarrow> this1\<lparr>localAnchorB := Vec3_copy v\<rparr> | None \<Rightarrow> this1);
          this3 = (case SpringOptions.worldAnchorA options of
                     Some v \<Rightarrow> Spring_setWorldAnchorA toLocal bs v this2 | None \<Rightarrow> this2);
          this4 = (case SpringOptions.worldAnchorB options of
                     Some v \<Rightarrow> Spring_setWorldAnchorB toLocal bs v this3 | None \<Rightarrow> this3)
      in this4)"

text \<open>
  \<open>applyForce\<close> works on eleven vectors that the module allocates once and every call
  overwrites. They are part of the state, next to the bodies.
\<close>

record Spring_state = Store +
  applyForce_r :: Vec3
  applyForce_r_unit :: Vec3
  applyForce_u :: Vec3
  applyForce_f :: Vec3
  applyForce_worldAnchorA :: Vec3
  applyForce_worldAnchorB :: Vec3
  applyForce_ri :: Vec3
  applyForce_rj :: Vec3
  applyForce_ri_x_f :: Vec3
  applyForce_rj_x_f :: Vec3
  applyForce_tmp :: Vec3

definition set_force :: "ref \<Rightarrow> Vec3 \<Rightarrow> (ref \<Rightarrow> Body) \<Rightarrow> (ref \<Rightarrow> Body)" where
  "set_force p v bs = bs(p := (bs p)\<lparr>force := v\<rparr>)"

definition set_torque :: "ref \<Rightarrow> Vec3 \<Rightarrow> (ref \<Rightarrow> Body) \<Rightarrow> (ref \<Rightarrow> Body)" where
  "set_torque p v bs = bs(p := (bs p)\<lparr>torque := v\<rparr>)"

definition Spring_applyForce :: "transform \<Rightarrow> Vec3 \<Rightarrow> Spring \<Rightarrow> Spring_state \<Rightarrow> Spring_state" where
  "Spring_applyForce toWorld degenerate this s0 =
     (let k = stiffness this;
          d = damping this;
          l = restLength this;
          a = bodyA this;
          b = bodyB this;
          s1 = s0\<lparr>applyForce_worldAnchorA := Spring_getWorldAnchorA toWorld (bodies s0) this\<rparr>;
          s2 = s1\<lparr>applyForce_worldAnchorB := Spring_getWorldAnchorB toWorld (bodies s1) this\<rparr>;
          s3 = s2\<lparr>applyForce_ri :=
                    Vec3_vsub (applyForce_worldAnchorA s2) (position (bodies s2 a))\<rparr>;
          s4 = s3\<lparr>applyForce_rj :=
                    Vec3_vsub (applyForce_worldAnchorB s3) (position (bodies s3 b))\<rparr>;
          s5 = s4\<lparr>applyForce_r :=
                    Vec3_vsub (applyForce_worldAnchorB s4) (applyForce_worldAnchorA s4)\<rparr>;
          rlen = Vec3_norm (applyForce_r s5);
          s6 = s5\<lparr>applyForce_r_unit := Vec3_copy (applyForce_r s5)\<rparr>;
          s7 = s6\<lparr>applyForce_r_unit := Vec3_normalize degenerate (applyForce_r_unit s6)\<rparr>;
          s8 = s7\<lparr>applyForce_u := Vec3_vsub (velocity (bodies s7 b)) (velocity (bodies s7 a))\<rparr>;
          s9 = s8\<lparr>applyForce_tmp :=
                    Vec3_cross (angularVelocity (bodies s8 b)) (applyForce_rj s8)\<rparr>;
          s10 = s9\<lparr>applyForce_u := Vec3_vadd (applyForce_u s9) (applyForce_tmp s9)\<rparr>;
          s11 = s10\<lparr>applyForce_tmp :=
                      Vec3_cross (angularVelocity (bodies s10 a)) (applyForce_ri s10)\<rparr>;
          s12 = s11\<lparr>applyForce_u := Vec3_vsub (applyForce_u s11) (applyForce_tmp s11)\<rparr>;
          s13 = s12\<lparr>applyForce_f :=
                      Vec3_mult (applyForce_r_unit s12)
                        (- k * (rlen - l) - d * Vec3_dot (applyForce_u s12) (applyForce_r_unit s12))\<rparr>;
          s14 = s13\<lparr>bodies :=
                      set_force a (Vec3_vsub (force (bodies s13 a)) (applyForce_f s13)) (bodies s13)\<rparr>;
          s15 = s14\<lparr>bodies :=
                      set_force b (Vec3_vadd (force (bodies s14 b)) (applyForce_f s14)) (bodies s14)\<rparr>;
          s16 = s15\<lparr>applyForce_ri_x_f := Vec3_cross (applyForce_ri s15) (applyForce_f s15)\<rparr>;
          s17 = s16\<lparr>applyForce_rj_x_f := Vec3_cross (applyForce_rj s16) (applyForce_f s16)\<rparr>;
          s18 = s17\<lparr>bodies :=
                      set_torque a (Vec3_vsub (torque (bodies s17 a)) (applyForce_ri_x_f s17))
                        (bodies s17)\<rparr>;
          s19 = s18\<lparr>bodies :=
                      set_torque b (Vec3_vadd (torque (bodies s18 b)) (applyForce_rj_x_f s18))
                        (bodies s18)\<rparr>
      in s19)"

text \<open>
  What other force elements have put into the accumulators before: \<open>g p\<close> on the force and
  \<open>t p\<close> on the torque of body \<open>p\<close>.
\<close>

definition accumulate ::
  "(ref \<Rightarrow> Vec3) \<Rightarrow> (ref \<Rightarrow> Vec3) \<Rightarrow> (ref \<Rightarrow> Body) \<Rightarrow> (ref \<Rightarrow> Body)" where
  "accumulate g t bs =
     (\<lambda>p. (bs p)\<lparr>force := Vec3_vadd (force (bs p)) (g p),
                  torque := Vec3_vadd (torque (bs p)) (t p)\<rparr>)"


text \<open>
  The spring force as the spec words it (section 4.6, steps 1 to 4), to be compared with what
  \<open>applyForce\<close> computes: the offsets \<open>ri\<close>, \<open>rj\<close> of the world anchors from the
  centers of their bodies, and
  \<open>f = r_unit * (-stiffness * (rlen - restLength) - damping * (u . r_unit))\<close> with
  \<open>r = worldAnchorB - worldAnchorA\<close>, \<open>rlen = |r|\<close>, \<open>r_unit = r / |r|\<close> and
  \<open>u = (vB - vA) + (omegaB x rj) - (omegaA x ri)\<close>.
\<close>

definition spec_ri :: "transform \<Rightarrow> Spring \<Rightarrow> (ref \<Rightarrow> Body) \<Rightarrow> Vec3" where
  "spec_ri toWorld sp bs =
     Vec3_vsub (Body_pointToWorldFrame toWorld (bs (Spring.bodyA sp)) (Spring.localAnchorA sp))
       (position (bs (Spring.bodyA sp)))"

definition spec_rj :: "transform \<Rightarrow> Spring \<Rightarrow> (ref \<Rightarrow> Body) \<Rightarrow> Vec3" where
  "spec_rj toWorld sp bs =
     Vec3_vsub (Body_pointToWorldFrame toWorld (bs (Spring.bodyB sp)) (Spring.localAnchorB sp))
       (position (bs (Spring.bodyB sp)))"

definition spec_f :: "transform \<Rightarrow> Spring \<Rightarrow> (ref \<Rightarrow> Body) \<Rightarrow> Vec3" where
  "spec_f toWorld sp bs =
     (let r = Vec3_vsub
                (Body_pointToWorldFrame toWorld (bs (Spring.bodyB sp)) (Spring.localAnchorB sp))
                (Body_pointToWorldFrame toWorld (bs (Spring.bodyA sp)) (Spring.localAnchorA sp));
          rlen = Vec3_norm r;
          r_unit = Vec3_mult r (1 / rlen);
          u = Vec3_vsub
                (Vec3_vadd
                   (Vec3_vsub (velocity (bs (Spring.bodyB sp))) (velocity (bs (Spring.bodyA sp))))
                   (Vec3_cross (angularVelocity (bs (Spring.bodyB sp))) (spec_rj toWorld sp bs)))
                (Vec3_cross (angularVelocity (bs (Spring.bodyA sp))) (spec_ri toWorld sp bs))
      in Vec3_mult r_unit
           (- Spring.stiffness sp * (rlen - Spring.restLength sp)
            - Spring.damping sp * Vec3_dot u r_unit))"


section \<open>Concrete bodies, equations and stores\<close>

text \<open>Small inputs on which the theorems below are run.\<close>

definition example_body :: "Vec3 \<Rightarrow> Body" where
  "example_body p =
     \<lparr>position = p, orientation = \<lparr>qx = 0, qy = 0, qz = 0, qw = 1\<rparr>,
      velocity = Vec3_new, angularVelocity = Vec3_new, force = Vec3_new, torque = Vec3_new\<rparr>"

definition example_equation :: ContactEquation where
  "example_equation =
     \<lparr>bi = 0, bj = 0, minForce = 0, maxForce = 1000000,
      ni = Vec3_new, ri = Vec3_new, rj = Vec3_new\<rparr>"

text \<open>Body \<open>0\<close> is at \<open>p\<close>, every other body at \<open>q\<close>.\<close>

definition example_heap :: "Vec3 \<Rightarrow> Vec3 \<Rightarrow> Heap" where
  "example_heap p q =
     \<lparr>bodies = (\<lambda>_. example_body q)(0 := example_body p),
      eqs = (\<lambda>_. example_equation), eq_next = 0\<rparr>"

definition example_constraint :: "real \<Rightarrow> DistanceConstraint" where
  "example_constraint d =
     \<lparr>Constraint.bodyA = 0, Constraint.bodyB = 1, equations = [0], distance = d,
      distanceEquation = 0\<rparr>"


text \<open>
  A spring between body \<open>0\<close> at the origin, at rest, and body \<open>1\<close> at \<open>(2, 0, 0)\<close>,
  moving away; the bodies are not rotated, so a local point is moved by the position alone.
\<close>

definition example_toWorld :: transform where
  "example_toWorld pos q v = Vec3_vadd pos v"

definition example_spring :: Spring where
  "example_spring =
     \<lparr>restLength = 1, stiffness = 100, damping = 1, bodyA = 0, bodyB = 1,
      localAnchorA = \<lparr>x = 0, y = 1, z = 0\<rparr>, localAnchorB = \<lparr>x = 0, y = 1, z = 0\<rparr>\<rparr>"

definition example_spring_state :: Spring_state where
  "example_spring_state =
     \<lparr>bodies = (\<lambda>_. (example_body \<lparr>x = 2, y = 0, z = 0\<rparr>)\<lparr>velocity := \<lparr>x = 1, y = 0, z = 0\<rparr>\<rparr>)
                 (0 := example_body Vec3_new),
      applyForce_r = Vec3_new, applyForce_r_unit = Vec3_new, applyForce_u = Vec3_new,
      applyForce_f = Vec3_new, applyForce_worldAnchorA = Vec3_new,
      applyForce_worldAnchorB = Vec3_new, applyForce_ri = Vec3_new, applyForce_rj = Vec3_new,
      applyForce_ri_x_f = Vec3_new, applyForce_rj_x_f = Vec3_new, applyForce_tmp = Vec3_new\<rparr>"



section \<open>Facts about vectors\<close>

lemma Vec3_norm_mult: "Vec3_norm (Vec3_mult v s) = \<bar>s\<bar> * Vec3_norm v"
proof -
  have "s * x v * (s * x v) + s * y v * (s * y v) + s * z v * (s * z v)
        = s\<^sup>2 * (x v * x v + y v * y v + z v * z v)"
    by (simp add: power2_eq_square algebra_simps)
  then show ?thesis
    by (simp add: Vec3_norm_def Vec3_mult_def real_sqrt_mult)
qed

lemma Vec3_norm_nonneg: "0 \<le> Vec3_norm v"
  by (simp add: Vec3_norm_def)

lemma Vec3_norm_zero_iff: "Vec3_norm v = 0 \<longleftrightarrow> v = Vec3_new"
proof
  assume "Vec3_norm v = 0"
  then have "x v * x v + y v * y v + z v * z v = 0"
    by (simp add: Vec3_norm_def)
  then have "x v = 0 \<and> y v = 0 \<and> z v = 0"
    by (smt (verit) zero_le_square mult_eq_0_iff)
  then show "v = Vec3_new"
    by (simp add: Vec3_new_def)
next
  assume "v = Vec3_new"
  then show "Vec3_norm v = 0" by (simp add: Vec3_norm_def Vec3_new_def)
qed

lemma Vec3_vsub_zero_iff: "Vec3_vsub u v = Vec3_new \<longleftrightarrow> u = v"
  by (cases u, cases v) (simp add: Vec3_vsub_def Vec3_new_def)

lemma Vec3_norm_vsub_pos: "u \<noteq> v \<Longrightarrow> 0 < Vec3_norm (Vec3_vsub u v)"
  using Vec3_norm_nonneg [of "Vec3_vsub u v"] Vec3_norm_zero_iff [of "Vec3_vsub u v"]
    Vec3_vsub_zero_iff [of u v] by linarith

lemma Vec3_normalize_pos:
  "0 < Vec3_norm v \<Longrightarrow> Vec3_normalize dg v = Vec3_mult v (1 / Vec3_norm v)"
  by (simp add: Vec3_normalize_def Vec3_mult_def Let_def)

lemma Vec3_normalize_zero: "Vec3_normalize dg Vec3_new = dg"
  by (simp add: Vec3_normalize_def Vec3_norm_def Vec3_new_def)

lemma Vec3_norm_normalize: "0 < Vec3_norm v \<Longrightarrow> Vec3_norm (Vec3_normalize dg v) = 1"
  by (simp add: Vec3_normalize_pos Vec3_norm_mult)


lemma Vec3_copy_id: "Vec3_copy v = v"
  by (simp add: Vec3_copy_def)

lemma Vec3_vsub_zero: "Vec3_vsub v Vec3_new = v"
  by (simp add: Vec3_vsub_def Vec3_new_def)

lemma Vec3_vadd_zero: "Vec3_vadd v Vec3_new = v"
  by (simp add: Vec3_vadd_def Vec3_new_def)

lemmas Vec3_defs = Vec3_new_def Vec3_copy_def Vec3_vsub_def Vec3_vadd_def Vec3_mult_def
  Vec3_cross_def Vec3_dot_def Vec3_norm_def Vec3_normalize_def

lemmas example_defs = example_body_def example_toWorld_def example_spring_def
  example_spring_state_def


section \<open>DistanceConstraint: the constructor and \<open>update\<close>\<close>

text \<open>What \<open>update\<close> leaves in the equation, in one step.\<close>

lemma DistanceConstraint_update_eq:
  "eqs (DistanceConstraint_update dg c h) (distanceEquation c) =
     (let n = Vec3_normalize dg
                (Vec3_vsub (position (bodies h (Constraint.bodyB c)))
                   (position (bodies h (Constraint.bodyA c))))
      in (eqs h (distanceEquation c))
           \<lparr>ni := n, ri := Vec3_mult n (distance c * 0.5),
            rj := Vec3_mult n (- (distance c * 0.5))\<rparr>)"
  by (simp add: DistanceConstraint_update_def Let_def)

text \<open>
  C1. For a constraint with positive \<open>distance\<close> whose two bodies have different centers,
  \<open>update\<close> leaves in the equation: \<open>ni\<close>, the vector from the center of body A to the
  center of body B scaled by the inverse of its length, of length one; \<open>ri = ni * (distance/2)\<close>
  and \<open>rj = ni * (-distance/2)\<close>; so both offsets have length \<open>distance/2\<close> and
  \<open>ri = -rj\<close>. The value \<open>dg\<close> that a zero-length normalization would leave plays no role.
\<close>

theorem DistanceConstraint_update_direction_and_offsets:
  assumes "0 < distance c"
    and "position (bodies h (Constraint.bodyB c)) \<noteq> position (bodies h (Constraint.bodyA c))"
  shows "let d = Vec3_vsub (position (bodies h (Constraint.bodyB c)))
                   (position (bodies h (Constraint.bodyA c)));
             e = eqs (DistanceConstraint_update dg c h) (distanceEquation c)
         in ni e = Vec3_mult d (1 / Vec3_norm d) \<and> Vec3_norm (ni e) = 1
            \<and> ri e = Vec3_mult (ni e) (distance c / 2)
            \<and> rj e = Vec3_mult (ni e) (- (distance c / 2))
            \<and> Vec3_norm (ri e) = distance c / 2
            \<and> Vec3_norm (rj e) = distance c / 2
            \<and> ri e = Vec3_mult (rj e) (- 1)"
proof -
  let ?d = "Vec3_vsub (position (bodies h (Constraint.bodyB c)))
              (position (bodies h (Constraint.bodyA c)))"
  let ?e = "eqs (DistanceConstraint_update dg c h) (distanceEquation c)"
  have pos: "0 < Vec3_norm ?d"
    using assms(2) by (rule Vec3_norm_vsub_pos)
  have n: "ni ?e = Vec3_normalize dg ?d"
    by (simp add: DistanceConstraint_update_eq Let_def)
  have i: "ri ?e = Vec3_mult (ni ?e) (distance c / 2)"
    by (simp add: DistanceConstraint_update_eq Let_def)
  have j: "rj ?e = Vec3_mult (ni ?e) (- (distance c / 2))"
    by (simp add: DistanceConstraint_update_eq Let_def)
  have u: "Vec3_norm (ni ?e) = 1"
    using pos by (simp add: n Vec3_norm_normalize)
  have li: "Vec3_norm (ri ?e) = distance c / 2"
    using assms(1) by (simp add: i Vec3_norm_mult u)
  have lj: "Vec3_norm (rj ?e) = distance c / 2"
    using assms(1) by (simp add: j Vec3_norm_mult u)
  have opp: "ri ?e = Vec3_mult (rj ?e) (- 1)"
    by (simp add: i j Vec3_mult_def)
  show ?thesis
    using pos n i j u li lj opp by (simp add: Let_def Vec3_normalize_pos)
qed

text \<open>
  The theorem at work: body A at the origin, body B at \<open>(3, 4, 0)\<close>, target distance \<open>2\<close>.
\<close>

theorem DistanceConstraint_update_direction_and_offsets_witness:
  "0 < distance (example_constraint 2)
   \<and> position (bodies (example_heap Vec3_new \<lparr>x = 3, y = 4, z = 0\<rparr>)
        (Constraint.bodyB (example_constraint 2)))
     \<noteq> position (bodies (example_heap Vec3_new \<lparr>x = 3, y = 4, z = 0\<rparr>)
        (Constraint.bodyA (example_constraint 2)))
   \<and> ni (eqs (DistanceConstraint_update Vec3_new (example_constraint 2)
              (example_heap Vec3_new \<lparr>x = 3, y = 4, z = 0\<rparr>)) 0)
     = \<lparr>x = 3 / 5, y = 4 / 5, z = 0\<rparr>
   \<and> ri (eqs (DistanceConstraint_update Vec3_new (example_constraint 2)
              (example_heap Vec3_new \<lparr>x = 3, y = 4, z = 0\<rparr>)) 0)
     = \<lparr>x = 3 / 5, y = 4 / 5, z = 0\<rparr>
   \<and> rj (eqs (DistanceConstraint_update Vec3_new (example_constraint 2)
              (example_heap Vec3_new \<lparr>x = 3, y = 4, z = 0\<rparr>)) 0)
     = \<lparr>x = - (3 / 5), y = - (4 / 5), z = 0\<rparr>
   \<and> Vec3_norm (ri (eqs (DistanceConstraint_update Vec3_new (example_constraint 2)
              (example_heap Vec3_new \<lparr>x = 3, y = 4, z = 0\<rparr>)) 0)) = 1"
  using DistanceConstraint_update_direction_and_offsets
    [of "example_constraint 2" "example_heap Vec3_new \<lparr>x = 3, y = 4, z = 0\<rparr>" Vec3_new]
  by (simp add: example_constraint_def example_heap_def example_body_def Vec3_new_def
      Vec3_vsub_def Vec3_norm_def Vec3_mult_def Let_def)

text \<open>
  C4 as it is written fails. \<open>update\<close> has no guard for coincident centers: with both
  bodies at the origin and a normalization that leaves the zero vector where it is, \<open>ni\<close>
  is the zero vector after \<open>update\<close>, which is no axis.
\<close>

theorem DistanceConstraint_update_coincident_counterexample:
  "position (bodies (example_heap Vec3_new Vec3_new) (Constraint.bodyB (example_constraint 2)))
     = position (bodies (example_heap Vec3_new Vec3_new) (Constraint.bodyA (example_constraint 2)))
   \<and> ni (eqs (DistanceConstraint_update Vec3_new (example_constraint 2)
               (example_heap Vec3_new Vec3_new)) 0) = \<lparr>x = 0, y = 0, z = 0\<rparr>
   \<and> Vec3_norm (ni (eqs (DistanceConstraint_update Vec3_new (example_constraint 2)
               (example_heap Vec3_new Vec3_new)) 0)) \<noteq> 1"
  by (simp add: DistanceConstraint_update_def example_constraint_def example_heap_def
      example_body_def Vec3_new_def Vec3_vsub_def Vec3_norm_def Vec3_mult_def
      Vec3_normalize_def Let_def)

text \<open>
  C4, amended. When the centers of the two bodies coincide, \<open>update\<close> adds nothing of its
  own: \<open>ni\<close> is whatever the normalization leaves for the zero vector (\<open>dg\<close>), and
  \<open>ri\<close>, \<open>rj\<close> are that vector scaled by \<open>distance/2\<close> and \<open>-distance/2\<close>.
\<close>

theorem DistanceConstraint_update_coincident:
  assumes "position (bodies h (Constraint.bodyB c)) = position (bodies h (Constraint.bodyA c))"
  shows "let e = eqs (DistanceConstraint_update dg c h) (distanceEquation c)
         in ni e = dg \<and> ri e = Vec3_mult dg (distance c / 2)
            \<and> rj e = Vec3_mult dg (- (distance c / 2))"
proof -
  have "Vec3_vsub (position (bodies h (Constraint.bodyB c)))
          (position (bodies h (Constraint.bodyA c))) = Vec3_new"
    using assms by (simp add: Vec3_vsub_zero_iff)
  then show ?thesis
    by (simp add: DistanceConstraint_update_eq Let_def Vec3_normalize_zero)
qed

theorem DistanceConstraint_update_coincident_witness:
  "position (bodies (example_heap Vec3_new Vec3_new) (Constraint.bodyB (example_constraint 2)))
     = position (bodies (example_heap Vec3_new Vec3_new) (Constraint.bodyA (example_constraint 2)))
   \<and> ni (eqs (DistanceConstraint_update \<lparr>x = 7, y = 0, z = 0\<rparr> (example_constraint 2)
               (example_heap Vec3_new Vec3_new)) 0) = \<lparr>x = 7, y = 0, z = 0\<rparr>
   \<and> ri (eqs (DistanceConstraint_update \<lparr>x = 7, y = 0, z = 0\<rparr> (example_constraint 2)
               (example_heap Vec3_new Vec3_new)) 0) = \<lparr>x = 7, y = 0, z = 0\<rparr>
   \<and> rj (eqs (DistanceConstraint_update \<lparr>x = 7, y = 0, z = 0\<rparr> (example_constraint 2)
               (example_heap Vec3_new Vec3_new)) 0) = \<lparr>x = - 7, y = 0, z = 0\<rparr>"
  using DistanceConstraint_update_coincident
    [of "example_heap Vec3_new Vec3_new" "example_constraint 2" "\<lparr>x = 7, y = 0, z = 0\<rparr>"]
  by (simp add: example_constraint_def example_heap_def example_body_def Vec3_mult_def Let_def)

text \<open>
  C6. Constructed without a distance argument, the constraint has as \<open>distance\<close> the
  Euclidean distance between the positions that the two bodies have at that moment.
\<close>

theorem DistanceConstraint_new_default_distance:
  "distance (fst (DistanceConstraint_new blank a b None maxForce_arg h)) =
     sqrt ((x (position (bodies h b)) - x (position (bodies h a)))\<^sup>2
         + (y (position (bodies h b)) - y (position (bodies h a)))\<^sup>2
         + (z (position (bodies h b)) - z (position (bodies h a)))\<^sup>2)"
  by (simp add: DistanceConstraint_new_def Vec3_distanceTo_def Let_def power2_eq_square)

text \<open>
  C7. The constructor makes one new equation and the constraint's sequence of equations is
  just that one. The equation is on the constraint's two bodies, its bounds are
  \<open>minForce = -maxForce\<close>, and \<open>maxForce\<close> is the argument, or \<open>1e6\<close> when none is
  given. The equation is newly allocated: no other equation of the store and no body changes.
\<close>

theorem DistanceConstraint_new_one_equation:
  "let r = DistanceConstraint_new blank a b distance_arg maxForce_arg h;
       c = fst r; h' = snd r; e = eqs h' (distanceEquation c)
   in equations c = [distanceEquation c] \<and> length (equations c) = 1
      \<and> Constraint.bodyA c = a \<and> Constraint.bodyB c = b \<and> bi e = a \<and> bj e = b
      \<and> minForce e = - maxForce e
      \<and> maxForce e = (case maxForce_arg of None \<Rightarrow> 1000000 | Some m \<Rightarrow> m)
      \<and> distanceEquation c = eq_next h \<and> eq_next h' = Suc (eq_next h)
      \<and> eqs h' = (eqs h)(distanceEquation c := e) \<and> bodies h' = bodies h"
  by (simp add: DistanceConstraint_new_def Constraint_new_def ContactEquation_new_def Let_def)


section \<open>ContactMaterial: identifiers and defaults\<close>

lemma ContactMaterial_new_id:
  "id' (fst (ContactMaterial_new m1 m2 options st)) = idCounter st"
  by (simp add: ContactMaterial_new_def Let_def)

lemma ContactMaterial_new_idCounter:
  "idCounter (snd (ContactMaterial_new m1 m2 options st)) = idCounter st + 1"
  by (simp add: ContactMaterial_new_def Let_def)

lemma ContactMaterial_new_all_ids:
  "map id' (fst (ContactMaterial_new_all args st)) = [idCounter st ..< idCounter st + length args]
   \<and> idCounter (snd (ContactMaterial_new_all args st)) = idCounter st + length args"
proof (induction args arbitrary: st)
  case Nil
  show ?case by simp
next
  case (Cons arg rest)
  obtain m1 m2 options where arg: "arg = (m1, m2, options)"
    by (cases arg) auto
  let ?st1 = "snd (ContactMaterial_new m1 m2 options st)"
  have step: "idCounter ?st1 = Suc (idCounter st)"
    by (simp add: ContactMaterial_new_idCounter)
  have "map id' (fst (ContactMaterial_new_all (arg # rest) st))
        = idCounter st # map id' (fst (ContactMaterial_new_all rest ?st1))"
    by (simp add: arg split_beta Let_def ContactMaterial_new_id)
  also have "\<dots> = idCounter st # [Suc (idCounter st) ..< Suc (idCounter st) + length rest]"
    using Cons.IH [of ?st1] step by simp
  also have "\<dots> = [idCounter st ..< idCounter st + length (arg # rest)]"
    using upt_conv_Cons [of "idCounter st" "idCounter st + length (arg # rest)"] by simp
  finally have ids: "map id' (fst (ContactMaterial_new_all (arg # rest) st))
        = [idCounter st ..< idCounter st + length (arg # rest)]" .
  have "idCounter (snd (ContactMaterial_new_all (arg # rest) st))
        = idCounter (snd (ContactMaterial_new_all rest ?st1))"
    by (simp add: arg split_beta Let_def)
  then have "idCounter (snd (ContactMaterial_new_all (arg # rest) st))
        = idCounter st + length (arg # rest)"
    using Cons.IH [of ?st1] step by simp
  with ids show ?case by simp
qed

text \<open>
  C8. In a run of constructions that starts with the counter as the module sets it, the
  \<open>k\<close>-th contact material gets the id \<open>k\<close>, counting from \<open>0\<close>: the ids are
  \<open>0, 1, ..., n - 1\<close> in the order of construction, so they start at \<open>0\<close>, increase
  strictly, and no id is given twice.
\<close>

theorem ContactMaterial_ids_increasing:
  "map id' (fst (ContactMaterial_new_all args ContactMaterial_static_init)) = [0 ..< length args]
   \<and> sorted_wrt (<) (map id' (fst (ContactMaterial_new_all args ContactMaterial_static_init)))
   \<and> distinct (map id' (fst (ContactMaterial_new_all args ContactMaterial_static_init)))
   \<and> length (fst (ContactMaterial_new_all args ContactMaterial_static_init)) = length args"
proof -
  have ids: "map id' (fst (ContactMaterial_new_all args ContactMaterial_static_init))
             = [0 ..< length args]"
    using ContactMaterial_new_all_ids [of args ContactMaterial_static_init]
    by (simp add: ContactMaterial_static_init_def)
  have len: "length (fst (ContactMaterial_new_all args ContactMaterial_static_init)) = length args"
    using arg_cong [OF ids, of length] by simp
  show ?thesis
    by (simp add: ids len)
qed

text \<open>
  C9. A new contact material keeps the two materials in the order given, and each of the six
  numbers is the supplied option, or its default when the option is not supplied: friction and
  restitution \<open>0.3\<close>, the two stiffnesses \<open>1e7\<close>, the two relaxations \<open>3\<close>.
\<close>

theorem ContactMaterial_new_defaults:
  "let c = fst (ContactMaterial_new m1 m2 options st)
   in materials c = (m1, m2)
      \<and> ContactMaterial.friction c =
          Some (case ContactMaterialOptions.friction options of None \<Rightarrow> 0.3 | Some v \<Rightarrow> v)
      \<and> ContactMaterial.restitution c =
          Some (case ContactMaterialOptions.restitution options of None \<Rightarrow> 0.3 | Some v \<Rightarrow> v)
      \<and> ContactMaterial.contactEquationStiffness c =
          Some (case ContactMaterialOptions.contactEquationStiffness options of
                  None \<Rightarrow> 10000000 | Some v \<Rightarrow> v)
      \<and> ContactMaterial.contactEquationRelaxation c =
          Some (case ContactMaterialOptions.contactEquationRelaxation options of
                  None \<Rightarrow> 3 | Some v \<Rightarrow> v)
      \<and> ContactMaterial.frictionEquationStiffness c =
          Some (case ContactMaterialOptions.frictionEquationStiffness options of
                  None \<Rightarrow> 10000000 | Some v \<Rightarrow> v)
      \<and> ContactMaterial.frictionEquationRelaxation c =
          Some (case ContactMaterialOptions.frictionEquationRelaxation options of
                  None \<Rightarrow> 3 | Some v \<Rightarrow> v)"
  by (simp add: ContactMaterial_new_def Utils_defaults_def Let_def split: option.split)


section \<open>Spring: the constructor\<close>

text \<open>
  C10. A stiffness option of \<open>0\<close> gives stiffness \<open>100\<close> and a damping option of \<open>0\<close>
  gives damping \<open>1\<close>, while a rest length option of \<open>0\<close> is kept. Left out, the options
  give rest length \<open>1\<close>, stiffness \<open>100\<close>, damping \<open>1\<close>, and the zero vector for a
  local anchor when neither it nor the world anchor of the same end is given.
\<close>

theorem Spring_new_zero_and_defaults:
  "Spring.stiffness (Spring_new toLocal bs a b (Some (options\<lparr>SpringOptions.stiffness := Some 0\<rparr>))) = 100
   \<and> Spring.damping (Spring_new toLocal bs a b (Some (options\<lparr>SpringOptions.damping := Some 0\<rparr>))) = 1
   \<and> Spring.restLength (Spring_new toLocal bs a b (Some (options\<lparr>SpringOptions.restLength := Some 0\<rparr>))) = 0
   \<and> Spring.restLength (Spring_new toLocal bs a b (Some (options\<lparr>SpringOptions.restLength := None\<rparr>))) = 1
   \<and> Spring.stiffness (Spring_new toLocal bs a b (Some (options\<lparr>SpringOptions.stiffness := None\<rparr>))) = 100
   \<and> Spring.damping (Spring_new toLocal bs a b (Some (options\<lparr>SpringOptions.damping := None\<rparr>))) = 1
   \<and> Spring.localAnchorA (Spring_new toLocal bs a b
        (Some (options\<lparr>SpringOptions.localAnchorA := None, SpringOptions.worldAnchorA := None\<rparr>))) = Vec3_new
   \<and> Spring.localAnchorB (Spring_new toLocal bs a b
        (Some (options\<lparr>SpringOptions.localAnchorB := None, SpringOptions.worldAnchorB := None\<rparr>))) = Vec3_new
   \<and> Spring_new toLocal bs a b None =
        \<lparr>restLength = 1, stiffness = 100, damping = 1, bodyA = a, bodyB = b,
         localAnchorA = Vec3_new, localAnchorB = Vec3_new\<rparr>"
  by (simp add: Spring_new_def number_or_def SpringOptions_empty_def Spring_setWorldAnchorA_def
      Spring_setWorldAnchorB_def Let_def split: option.split)

text \<open>
  C5 as it is written fails: a spring built with stiffness \<open>-5\<close> has stiffness \<open>-5\<close>,
  and a contact material built with friction \<open>-1\<close> has friction \<open>-1\<close>. Neither
  constructor has a failing branch.
\<close>

theorem Spring_new_negative_counterexample:
  "Spring.stiffness (Spring_new (\<lambda>p q v. v) (\<lambda>_. example_body Vec3_new) 0 1
      (Some (SpringOptions_empty\<lparr>SpringOptions.stiffness := Some (- 5)\<rparr>))) = - 5
   \<and> ContactMaterial.friction (fst (ContactMaterial_new 0 1
      \<lparr>ContactMaterialOptions.friction = Some (- 1), ContactMaterialOptions.restitution = None,
       ContactMaterialOptions.contactEquationStiffness = None,
       ContactMaterialOptions.contactEquationRelaxation = None,
       ContactMaterialOptions.frictionEquationStiffness = None,
       ContactMaterialOptions.frictionEquationRelaxation = None\<rparr>
      ContactMaterial_static_init)) = Some (- 1)"
  by (simp add: Spring_new_def number_or_def SpringOptions_empty_def Let_def
      ContactMaterial_new_def Utils_defaults_def)

text \<open>
  C5, amended. The constructors check nothing: a supplied rest length, friction or restitution
  is stored as it is, whatever its sign, and a supplied stiffness or damping is stored as it is
  unless it is \<open>0\<close>, which the default replaces.
\<close>

theorem constructors_store_without_validation:
  "Spring.restLength (Spring_new toLocal bs a b (Some (options\<lparr>SpringOptions.restLength := Some l\<rparr>))) = l
   \<and> Spring.stiffness (Spring_new toLocal bs a b (Some (options\<lparr>SpringOptions.stiffness := Some k\<rparr>)))
       = (if k = 0 then 100 else k)
   \<and> Spring.damping (Spring_new toLocal bs a b (Some (options\<lparr>SpringOptions.damping := Some d\<rparr>)))
       = (if d = 0 then 1 else d)
   \<and> ContactMaterial.friction (fst (ContactMaterial_new m1 m2
        (coptions\<lparr>ContactMaterialOptions.friction := Some f\<rparr>) st)) = Some f
   \<and> ContactMaterial.restitution (fst (ContactMaterial_new m1 m2
        (coptions\<lparr>ContactMaterialOptions.restitution := Some e\<rparr>) st)) = Some e"
  by (simp add: Spring_new_def number_or_def Spring_setWorldAnchorA_def
      Spring_setWorldAnchorB_def Let_def ContactMaterial_new_def Utils_defaults_def
      split: option.split)


section \<open>Spring: \<open>applyForce\<close>\<close>

text \<open>The force that the code computes, as a function of the bodies alone.\<close>

lemma Spring_applyForce_f:
  "applyForce_f (Spring_applyForce toWorld dg sp s) =
     (let r = Vec3_vsub (Spring_getWorldAnchorB toWorld (bodies s) sp)
                (Spring_getWorldAnchorA toWorld (bodies s) sp);
          r_unit = Vec3_normalize dg r;
          u = Vec3_vsub
                (Vec3_vadd
                   (Vec3_vsub (velocity (bodies s (Spring.bodyB sp)))
                      (velocity (bodies s (Spring.bodyA sp))))
                   (Vec3_cross (angularVelocity (bodies s (Spring.bodyB sp)))
                      (spec_rj toWorld sp (bodies s))))
                (Vec3_cross (angularVelocity (bodies s (Spring.bodyA sp)))
                   (spec_ri toWorld sp (bodies s)))
      in Vec3_mult r_unit
           (- Spring.stiffness sp * (Vec3_norm r - Spring.restLength sp)
            - Spring.damping sp * Vec3_dot u r_unit))"
  by (simp add: Spring_applyForce_def Let_def Vec3_copy_id spec_ri_def spec_rj_def
      Spring_getWorldAnchorA_def Spring_getWorldAnchorB_def)

lemma Spring_applyForce_bodies:
  "bodies (Spring_applyForce toWorld dg sp s) =
     (let f = applyForce_f (Spring_applyForce toWorld dg sp s);
          a = Spring.bodyA sp; b = Spring.bodyB sp;
          b1 = set_force a (Vec3_vsub (force (bodies s a)) f) (bodies s);
          b2 = set_force b (Vec3_vadd (force (b1 b)) f) b1;
          b3 = set_torque a (Vec3_vsub (torque (b2 a)) (Vec3_cross (spec_ri toWorld sp (bodies s)) f)) b2;
          b4 = set_torque b (Vec3_vadd (torque (b3 b)) (Vec3_cross (spec_rj toWorld sp (bodies s)) f)) b3
      in b4)"
  by (simp add: Spring_applyForce_def Let_def Vec3_copy_id spec_ri_def spec_rj_def
      Spring_getWorldAnchorA_def Spring_getWorldAnchorB_def)

lemma Spring_applyForce_f_spec:
  assumes "Spring_getWorldAnchorA toWorld (bodies s) sp \<noteq> Spring_getWorldAnchorB toWorld (bodies s) sp"
  shows "applyForce_f (Spring_applyForce toWorld dg sp s) = spec_f toWorld sp (bodies s)"
proof -
  have "0 < Vec3_norm (Vec3_vsub (Spring_getWorldAnchorB toWorld (bodies s) sp)
                         (Spring_getWorldAnchorA toWorld (bodies s) sp))"
    using assms by (intro Vec3_norm_vsub_pos) auto
  then show ?thesis
    by (simp add: Spring_applyForce_f spec_f_def Let_def Vec3_normalize_pos
        Spring_getWorldAnchorA_def Spring_getWorldAnchorB_def)
qed

lemma Spring_applyForce_force:
  "force (bodies (Spring_applyForce toWorld dg sp s) p) =
     Vec3_vadd
       (Vec3_vsub (force (bodies s p))
          (if p = Spring.bodyA sp then applyForce_f (Spring_applyForce toWorld dg sp s) else Vec3_new))
       (if p = Spring.bodyB sp then applyForce_f (Spring_applyForce toWorld dg sp s) else Vec3_new)"
  by (simp add: Spring_applyForce_bodies Let_def set_force_def set_torque_def
      Vec3_vsub_zero Vec3_vadd_zero)

lemma Spring_applyForce_torque:
  "torque (bodies (Spring_applyForce toWorld dg sp s) p) =
     Vec3_vadd
       (Vec3_vsub (torque (bodies s p))
          (if p = Spring.bodyA sp
           then Vec3_cross (spec_ri toWorld sp (bodies s)) (applyForce_f (Spring_applyForce toWorld dg sp s))
           else Vec3_new))
       (if p = Spring.bodyB sp
        then Vec3_cross (spec_rj toWorld sp (bodies s)) (applyForce_f (Spring_applyForce toWorld dg sp s))
        else Vec3_new)"
  by (simp add: Spring_applyForce_bodies Let_def set_force_def set_torque_def
      Vec3_vsub_zero Vec3_vadd_zero)

lemma Spring_applyForce_kinematics:
  "position (bodies (Spring_applyForce toWorld dg sp s) p) = position (bodies s p)
   \<and> orientation (bodies (Spring_applyForce toWorld dg sp s) p) = orientation (bodies s p)
   \<and> velocity (bodies (Spring_applyForce toWorld dg sp s) p) = velocity (bodies s p)
   \<and> angularVelocity (bodies (Spring_applyForce toWorld dg sp s) p) = angularVelocity (bodies s p)"
  by (simp add: Spring_applyForce_bodies Let_def set_force_def set_torque_def)

lemma Spring_applyForce_other:
  "p \<noteq> Spring.bodyA sp \<Longrightarrow> p \<noteq> Spring.bodyB sp \<Longrightarrow>
   bodies (Spring_applyForce toWorld dg sp s) p = bodies s p"
  by (simp add: Spring_applyForce_bodies Let_def set_force_def set_torque_def)

lemma Body_eqI:
  fixes b1 b2 :: Body
  shows "position b1 = position b2 \<Longrightarrow> orientation b1 = orientation b2 \<Longrightarrow> velocity b1 = velocity b2 \<Longrightarrow>
   angularVelocity b1 = angularVelocity b2 \<Longrightarrow> force b1 = force b2 \<Longrightarrow> torque b1 = torque b2 \<Longrightarrow>
   b1 = b2"
  by simp

text \<open>
  C2. When the two world anchors differ, the vector \<open>f\<close> that \<open>applyForce\<close> computes is
  the spring force of the spec, and the call subtracts \<open>f\<close> from the force of body A, adds
  it to the force of body B, subtracts \<open>ri x f\<close> from the torque of body A and adds
  \<open>rj x f\<close> to the torque of body B, in this order; a body that is both ends gets both.
\<close>

theorem Spring_applyForce_force_and_torque:
  assumes "Spring_getWorldAnchorA toWorld (bodies s) sp \<noteq> Spring_getWorldAnchorB toWorld (bodies s) sp"
  shows "let s' = Spring_applyForce toWorld dg sp s;
             f = spec_f toWorld sp (bodies s);
             ri = spec_ri toWorld sp (bodies s);
             rj = spec_rj toWorld sp (bodies s)
         in applyForce_f s' = f
            \<and> (\<forall>p. force (bodies s' p) =
                      Vec3_vadd
                        (Vec3_vsub (force (bodies s p)) (if p = Spring.bodyA sp then f else Vec3_new))
                        (if p = Spring.bodyB sp then f else Vec3_new)
                    \<and> torque (bodies s' p) =
                      Vec3_vadd
                        (Vec3_vsub (torque (bodies s p))
                           (if p = Spring.bodyA sp then Vec3_cross ri f else Vec3_new))
                        (if p = Spring.bodyB sp then Vec3_cross rj f else Vec3_new))"
  unfolding Let_def Spring_applyForce_force Spring_applyForce_torque
    Spring_applyForce_f_spec [OF assms]
  by simp

theorem Spring_applyForce_force_and_torque_witness:
  "Spring_getWorldAnchorA example_toWorld (bodies example_spring_state) example_spring
     \<noteq> Spring_getWorldAnchorB example_toWorld (bodies example_spring_state) example_spring
   \<and> applyForce_f (Spring_applyForce example_toWorld Vec3_new example_spring example_spring_state)
       = \<lparr>x = - 101, y = 0, z = 0\<rparr>
   \<and> force (bodies (Spring_applyForce example_toWorld Vec3_new example_spring
                      example_spring_state) 0) = \<lparr>x = 101, y = 0, z = 0\<rparr>
   \<and> force (bodies (Spring_applyForce example_toWorld Vec3_new example_spring
                      example_spring_state) 1) = \<lparr>x = - 101, y = 0, z = 0\<rparr>
   \<and> torque (bodies (Spring_applyForce example_toWorld Vec3_new example_spring
                      example_spring_state) 0) = \<lparr>x = 0, y = 0, z = - 101\<rparr>
   \<and> torque (bodies (Spring_applyForce example_toWorld Vec3_new example_spring
                      example_spring_state) 1) = \<lparr>x = 0, y = 0, z = 101\<rparr>"
proof -
  have ne: "Spring_getWorldAnchorA example_toWorld (bodies example_spring_state) example_spring
     \<noteq> Spring_getWorldAnchorB example_toWorld (bodies example_spring_state) example_spring"
    by (simp add: Spring_getWorldAnchorA_def Spring_getWorldAnchorB_def
        Body_pointToWorldFrame_def example_defs Vec3_defs)
  have f: "spec_f example_toWorld example_spring (bodies example_spring_state)
           = \<lparr>x = - 101, y = 0, z = 0\<rparr>"
    by (simp add: spec_f_def spec_ri_def spec_rj_def Body_pointToWorldFrame_def example_defs
        Vec3_defs Let_def)
  have i: "spec_ri example_toWorld example_spring (bodies example_spring_state)
           = \<lparr>x = 0, y = 1, z = 0\<rparr>"
    by (simp add: spec_ri_def Body_pointToWorldFrame_def example_defs Vec3_defs)
  have j: "spec_rj example_toWorld example_spring (bodies example_spring_state)
           = \<lparr>x = 0, y = 1, z = 0\<rparr>"
    by (simp add: spec_rj_def Body_pointToWorldFrame_def example_defs Vec3_defs)
  note th = Spring_applyForce_force_and_torque [OF ne, of Vec3_new, unfolded Let_def f i j]
  have ab: "Spring.bodyA example_spring = 0" "Spring.bodyB example_spring = 1"
    by (simp_all add: example_defs)
  show ?thesis
    using ne th [THEN conjunct1] th [THEN conjunct2, rule_format, of 0]
      th [THEN conjunct2, rule_format, of 1]
    by (simp add: ab example_defs Vec3_defs)
qed

lemma Spring_applyForce_f_accumulate:
  "applyForce_f (Spring_applyForce toWorld dg sp (s\<lparr>bodies := accumulate g t (bodies s)\<rparr>))
   = applyForce_f (Spring_applyForce toWorld dg sp s)"
  by (simp add: Spring_applyForce_f Let_def accumulate_def spec_ri_def spec_rj_def
      Spring_getWorldAnchorA_def Spring_getWorldAnchorB_def Body_pointToWorldFrame_def)

lemma spec_ri_accumulate: "spec_ri toWorld sp (accumulate g t bs) = spec_ri toWorld sp bs"
  by (simp add: accumulate_def spec_ri_def Body_pointToWorldFrame_def)

lemma spec_rj_accumulate: "spec_rj toWorld sp (accumulate g t bs) = spec_rj toWorld sp bs"
  by (simp add: accumulate_def spec_rj_def Body_pointToWorldFrame_def)

lemma force_accumulate: "force (accumulate g t bs p) = Vec3_vadd (force (bs p)) (g p)"
  by (simp add: accumulate_def)

lemma torque_accumulate: "torque (accumulate g t bs p) = Vec3_vadd (torque (bs p)) (t p)"
  by (simp add: accumulate_def)

lemma Spring_applyForce_accumulate:
  "bodies (Spring_applyForce toWorld dg sp (s\<lparr>bodies := accumulate g t (bodies s)\<rparr>))
   = accumulate g t (bodies (Spring_applyForce toWorld dg sp s))"
proof
  fix p
  let ?s1 = "s\<lparr>bodies := accumulate g t (bodies s)\<rparr>"
  let ?l = "bodies (Spring_applyForce toWorld dg sp ?s1) p"
  let ?r = "accumulate g t (bodies (Spring_applyForce toWorld dg sp s)) p"
  have bs1: "bodies ?s1 = accumulate g t (bodies s)"
    by simp
  have fa: "applyForce_f (Spring_applyForce toWorld dg sp ?s1)
            = applyForce_f (Spring_applyForce toWorld dg sp s)"
    by (rule Spring_applyForce_f_accumulate)
  have k: "position ?l = position ?r" "orientation ?l = orientation ?r"
    "velocity ?l = velocity ?r" "angularVelocity ?l = angularVelocity ?r"
    by (simp_all add: Spring_applyForce_kinematics accumulate_def)
  have f: "force ?l = force ?r"
    unfolding Spring_applyForce_force [of toWorld dg sp ?s1 p] fa bs1 force_accumulate
      Spring_applyForce_force [of toWorld dg sp s p]
    by (simp add: Vec3_vadd_def Vec3_vsub_def)
  have q: "torque ?l = torque ?r"
    unfolding Spring_applyForce_torque [of toWorld dg sp ?s1 p] fa bs1 torque_accumulate
      Spring_applyForce_torque [of toWorld dg sp s p] spec_ri_accumulate spec_rj_accumulate
    by (simp add: Vec3_vadd_def Vec3_vsub_def)
  show "?l = ?r"
    using k f q by (rule Body_eqI)
qed

text \<open>
  C3. \<open>applyForce\<close> leaves position, orientation, velocity and angular velocity of every
  body as they were, and changes no body other than the two ends of the spring. What it does to
  the accumulators is an addition: had the forces and torques held \<open>g\<close> and \<open>t\<close> more
  before the call, they hold \<open>g\<close> and \<open>t\<close> more after it. The spring is an argument
  that the call only reads.
\<close>

theorem Spring_applyForce_frame:
  "let s' = Spring_applyForce toWorld dg sp s
   in (\<forall>p. position (bodies s' p) = position (bodies s p)
          \<and> orientation (bodies s' p) = orientation (bodies s p)
          \<and> velocity (bodies s' p) = velocity (bodies s p)
          \<and> angularVelocity (bodies s' p) = angularVelocity (bodies s p))
      \<and> (\<forall>p. p \<noteq> Spring.bodyA sp \<and> p \<noteq> Spring.bodyB sp \<longrightarrow> bodies s' p = bodies s p)
      \<and> (\<forall>g t. bodies (Spring_applyForce toWorld dg sp (s\<lparr>bodies := accumulate g t (bodies s)\<rparr>))
               = accumulate g t (bodies s'))"
  by (simp add: Let_def Spring_applyForce_kinematics Spring_applyForce_other
      Spring_applyForce_accumulate)

theorem Spring_applyForce_frame_witness:
  "(2 \<noteq> Spring.bodyA example_spring \<and> 2 \<noteq> Spring.bodyB example_spring)
   \<and> bodies (Spring_applyForce example_toWorld Vec3_new example_spring example_spring_state) 2
       = bodies example_spring_state 2
   \<and> velocity (bodies (Spring_applyForce example_toWorld Vec3_new example_spring
                         example_spring_state) 1) = \<lparr>x = 1, y = 0, z = 0\<rparr>
   \<and> position (bodies (Spring_applyForce example_toWorld Vec3_new example_spring
                         example_spring_state) 1) = \<lparr>x = 2, y = 0, z = 0\<rparr>
   \<and> force (bodies (Spring_applyForce example_toWorld Vec3_new example_spring
        (example_spring_state\<lparr>bodies :=
           accumulate (\<lambda>_. \<lparr>x = 1, y = 2, z = 3\<rparr>) (\<lambda>_. Vec3_new) (bodies example_spring_state)\<rparr>)) 0)
       = Vec3_vadd
           (force (bodies (Spring_applyForce example_toWorld Vec3_new example_spring
                             example_spring_state) 0))
           \<lparr>x = 1, y = 2, z = 3\<rparr>"
proof -
  note th = Spring_applyForce_frame
    [of example_toWorld Vec3_new example_spring example_spring_state, unfolded Let_def]
  have ab: "2 \<noteq> Spring.bodyA example_spring \<and> 2 \<noteq> Spring.bodyB example_spring"
    by (simp add: example_defs)
  have other: "bodies (Spring_applyForce example_toWorld Vec3_new example_spring example_spring_state) 2
       = bodies example_spring_state 2"
    using th [THEN conjunct2, THEN conjunct1, rule_format, of 2] ab by simp
  have kin: "velocity (bodies (Spring_applyForce example_toWorld Vec3_new example_spring
                         example_spring_state) 1) = \<lparr>x = 1, y = 0, z = 0\<rparr>"
    "position (bodies (Spring_applyForce example_toWorld Vec3_new example_spring
                         example_spring_state) 1) = \<lparr>x = 2, y = 0, z = 0\<rparr>"
    using th [THEN conjunct1, rule_format, of 1] by (simp_all add: example_defs)
  have acc: "bodies (Spring_applyForce example_toWorld Vec3_new example_spring
        (example_spring_state\<lparr>bodies :=
           accumulate (\<lambda>_. \<lparr>x = 1, y = 2, z = 3\<rparr>) (\<lambda>_. Vec3_new) (bodies example_spring_state)\<rparr>))
       = accumulate (\<lambda>_. \<lparr>x = 1, y = 2, z = 3\<rparr>) (\<lambda>_. Vec3_new)
           (bodies (Spring_applyForce example_toWorld Vec3_new example_spring example_spring_state))"
    using th [THEN conjunct2, THEN conjunct2, rule_format] .
  show ?thesis
    using ab other kin arg_cong [OF acc, of "\<lambda>bs. force (bs 0)"]
    by (simp add: accumulate_def)
qed

end
